theory Spec2Isabelle
  imports Complex_Main "HOL-Library.Sublist"
begin

section \<open>Data model (src/types/index.ts)\<close>

text \<open>
  JavaScript numbers are modelled as reals. Every property below depends only on the
  order of the numbers and on one expression being evaluated twice on equal inputs,
  never on how a product is rounded.
\<close>

datatype OrderStatus =
  pending | routing | limit_check | building | submitted | confirmed | failed

datatype OrderType = LIMIT | MARKET | SNIPER

datatype DexType = RAYDIUM | METEORA

text \<open>
  The order as the worker reads it from the store. \<open>limitPrice\<close> is optional in the
  source (\<open>limitPrice?: number\<close>); \<open>None\<close> is the \<open>null\<close> the store returns for an
  order created without one.
\<close>

record Order =
  order_id :: string
  order_type :: OrderType
  tokenIn :: string
  tokenOut :: string
  amountIn :: real
  limitPrice :: "real option"
  slippage :: real

record DexQuote =
  q_price :: real
  q_fee :: real
  q_dex :: DexType

record DexRouterResult =
  selectedDex :: DexType
  r_price :: real
  r_fee :: real
  effectivePrice :: real

record SwapResult =
  s_txHash :: string
  s_executedPrice :: real

text \<open>
  A template literal is kept as its parts, so that an interpolated number stays a number:
  \<open>Lit s\<close> is literal text, \<open>Fixed2 x\<close> is \<open>${x.toFixed(2)}\<close> and \<open>Dec n\<close> is \<open>${n}\<close>.
  Neither \<open>toFixed\<close> nor the decimal form of a number is ever the empty string, so the
  string JavaScript builds is empty exactly when every part is an empty literal.
\<close>

datatype msg_part = Lit string | Fixed2 real | Dec nat

type_synonym message = "msg_part list"



text \<open>What a \<open>throw\<close> carries: an \<open>Error\<close> made by the code, or the engine's \<open>TypeError\<close>.\<close>

datatype exn = Error message | TypeError message

fun exn_message :: "exn \<Rightarrow> message" where
  "exn_message (Error m) = m"
| "exn_message (TypeError m) = m"

text \<open>The \<open>data\<close> object of a lifecycle event, one constructor per shape the code sends.\<close>

datatype payload =
  Message string
| LimitCheckData DexType real "real option"
| ConfirmedData DexType real string
| FailedData message

text \<open>The fields \<open>updateOrderStatus\<close> writes beside the status.\<close>

record OutcomeFields =
  o_dex :: "DexType option"
  o_executedPrice :: "real option"
  o_txHash :: "string option"
  o_errorReason :: "message option"

text \<open>The lines the Price Gate prints, one per limit evaluation.\<close>

datatype console_line =
  LimitPassed string nat real real
| LimitFailed string nat real real
| LimitRetry nat nat real

section \<open>Effects\<close>

text \<open>
  A run is traced by the calls it makes to its collaborators, in program order:
  the broadcaster (\<open>wsManager.emit\<close>), the venue router's entry point, the timers, the
  record store and the console of the Price Gate. The collaborators themselves (record
  store, transport, timers) are taken to complete without raising: the source raises
  nothing on their behalf, and every \<open>throw\<close> it does contain is a branch below.
\<close>

datatype effect =
  Emit string OrderStatus payload
| Route string string real
| Sleep real
| Persist string OrderStatus OutcomeFields
| IncrementAttempts string
| Console console_line

text \<open>
  \<open>Math.random()\<close> is an oracle \<open>rnd\<close>: the \<open>n\<close>-th call returns \<open>rnd n\<close>. The world
  counts the calls made so far and collects the trace.
\<close>

record world =
  rcount :: nat
  trace :: "effect list"

definition random :: "(nat \<Rightarrow> real) \<Rightarrow> world \<Rightarrow> real \<times> world" where
  "random rnd w = (rnd (rcount w), w\<lparr>rcount := Suc (rcount w)\<rparr>)"

definition perform :: "effect \<Rightarrow> world \<Rightarrow> world" where
  "perform e w = w\<lparr>trace := trace w @ [e]\<rparr>"

definition sleep :: "real \<Rightarrow> world \<Rightarrow> world" where
  "sleep ms w = perform (Sleep ms) w"

section \<open>Venue router (src/dex/MockDexRouter.ts)\<close>

definition basePrice :: real where
  "basePrice = 185.50"

definition simulateNetworkDelay :: "real \<Rightarrow> world \<Rightarrow> world" where
  "simulateNetworkDelay ms w = sleep ms w"

definition getRaydiumQuote :: "(nat \<Rightarrow> real) \<Rightarrow> world \<Rightarrow> DexQuote \<times> world" where
  "getRaydiumQuote rnd w =
     (let w1 = simulateNetworkDelay 200 w;
          (r, w2) = random rnd w1;
          variance = 0.98 + r * 0.04
      in (\<lparr>q_price = basePrice * variance, q_fee = 0.003, q_dex = RAYDIUM\<rparr>, w2))"

definition getMeteorQuote :: "(nat \<Rightarrow> real) \<Rightarrow> world \<Rightarrow> DexQuote \<times> world" where
  "getMeteorQuote rnd w =
     (let w1 = simulateNetworkDelay 200 w;
          (r, w2) = random rnd w1;
          variance = 0.97 + r * 0.05
      in (\<lparr>q_price = basePrice * variance, q_fee = 0.002, q_dex = METEORA\<rparr>, w2))"

text \<open>
  The part of \<open>routeOrder\<close> after the two quotes have arrived: effective prices,
  selection, result.
\<close>

definition selectRoute :: "DexQuote \<Rightarrow> DexQuote \<Rightarrow> DexRouterResult" where
  "selectRoute raydiumQuote meteoraQuote =
     (let raydiumEffective = q_price raydiumQuote * (1 - q_fee raydiumQuote);
          meteoraEffective = q_price meteoraQuote * (1 - q_fee meteoraQuote);
          dex = (if raydiumEffective < meteoraEffective then RAYDIUM else METEORA);
          selectedQuote = (if dex = RAYDIUM then raydiumQuote else meteoraQuote)
      in \<lparr>selectedDex = dex,
          r_price = q_price selectedQuote,
          r_fee = q_fee selectedQuote,
          effectivePrice = q_price selectedQuote * (1 - q_fee selectedQuote)\<rparr>)"

text \<open>
  \<open>Promise.all\<close> starts both quote calls; each waits 200 ms and then draws its random
  number, Raydium's timer first. The two overlapping waits appear one after the other
  in the trace.
\<close>

definition routeOrder ::
  "(nat \<Rightarrow> real) \<Rightarrow> string \<Rightarrow> string \<Rightarrow> real \<Rightarrow> world \<Rightarrow> DexRouterResult \<times> world" where
  "routeOrder rnd tIn tOut amount w =
     (let w0 = perform (Route tIn tOut amount) w;
          (raydiumQuote, w1) = getRaydiumQuote rnd w0;
          (meteoraQuote, w2) = getMeteorQuote rnd w1
      in (selectRoute raydiumQuote meteoraQuote, w2))"

text \<open>
  \<open>bestPrice <= limitPrice\<close>. Against \<open>null\<close> JavaScript compares with \<open>0\<close>.
\<close>

definition checkLimitCondition :: "real \<Rightarrow> real option \<Rightarrow> bool" where
  "checkLimitCondition bestPrice limit =
     (case limit of None \<Rightarrow> bestPrice \<le> 0 | Some l \<Rightarrow> bestPrice \<le> l)"

section \<open>Execution simulator (src/dex/MockDexRouter.ts)\<close>

definition chars :: string where
  "chars = ''ABCDEFGHIJKLMNOPQRSTUVWXYZabcdefghijklmnopqrstuvwxyz0123456789''"

text \<open>\<open>String.prototype.charAt\<close>: the empty string outside the string.\<close>

definition charAt :: "string \<Rightarrow> int \<Rightarrow> string" where
  "charAt s i = (if 0 \<le> i \<and> i < int (length s) then [s ! nat i] else [])"

text \<open>
  The loop \<open>for (i = 0; i < 88; i++) hash += chars.charAt(floor(random() * chars.length))\<close>,
  by the number of iterations still to run.
\<close>

fun hashLoop :: "(nat \<Rightarrow> real) \<Rightarrow> nat \<Rightarrow> string \<Rightarrow> world \<Rightarrow> string \<times> world" where
  "hashLoop rnd 0 hash w = (hash, w)"
| "hashLoop rnd (Suc k) hash w =
     (let (r, w1) = random rnd w
      in hashLoop rnd k (hash @ charAt chars \<lfloor>r * real (length chars)\<rfloor>) w1)"

definition generateMockTxHash :: "(nat \<Rightarrow> real) \<Rightarrow> world \<Rightarrow> string \<times> world" where
  "generateMockTxHash rnd w = hashLoop rnd 88 [] w"

definition executeSwap ::
  "(nat \<Rightarrow> real) \<Rightarrow> DexType \<Rightarrow> string \<Rightarrow> world \<Rightarrow> SwapResult \<times> world" where
  "executeSwap rnd dex orderId w =
     (let (r1, w1) = random rnd w;
          executionTime = 2000 + r1 * 1000;
          w2 = simulateNetworkDelay executionTime w1;
          (hash, w3) = generateMockTxHash rnd w2;
          (r2, w4) = random rnd w3;
          executedPrice = basePrice * (0.99 + r2 * 0.02)
      in (\<lparr>s_txHash = hash, s_executedPrice = executedPrice\<rparr>, w4))"

section \<open>Order state machine and Price Gate (src/services/limitOrderService.ts)\<close>

definition maxRetries :: nat where
  "maxRetries = 3"

definition retryDelayMs :: real where
  "retryDelayMs = 3000"

definition emitStatus :: "string \<Rightarrow> OrderStatus \<Rightarrow> payload \<Rightarrow> world \<Rightarrow> world" where
  "emitStatus orderId st d w = perform (Emit orderId st d) w"

definition updateOrderStatus :: "string \<Rightarrow> OrderStatus \<Rightarrow> OutcomeFields \<Rightarrow> world \<Rightarrow> world" where
  "updateOrderStatus orderId st d w = perform (Persist orderId st d) w"

text \<open>\<open>limitPrice.toFixed(2)\<close> on a missing limit price.\<close>

definition toFixed_of_null :: exn where
  "toFixed_of_null = TypeError [Lit ''Cannot read properties of null (reading 'toFixed')'']"

text \<open>
  The recursive limit check. Its two final branches print the limit price with
  \<open>toFixed\<close>, which raises when the order has none; the retry branch prints no price
  of the order. A retry waits, asks the router again with the arguments written in the
  source, and checks the new effective price as the next attempt.
\<close>

function checkLimitWithRetry ::
  "(nat \<Rightarrow> real) \<Rightarrow> string \<Rightarrow> real \<Rightarrow> real option \<Rightarrow> nat \<Rightarrow> world \<Rightarrow> (exn + bool) \<times> world" where
  "checkLimitWithRetry rnd orderId currentPrice limit attempt w =
     (if checkLimitCondition currentPrice limit then
        (case limit of
           None \<Rightarrow> (Inl toFixed_of_null, w)
         | Some l \<Rightarrow> (Inr True, perform (Console (LimitPassed orderId attempt currentPrice l)) w))
      else if attempt \<ge> maxRetries then
        (case limit of
           None \<Rightarrow> (Inl toFixed_of_null, w)
         | Some l \<Rightarrow> (Inr False, perform (Console (LimitFailed orderId maxRetries currentPrice l)) w))
      else
        (let w1 = perform (Console (LimitRetry attempt maxRetries retryDelayMs)) w;
             w2 = sleep retryDelayMs w1;
             (newRoute, w3) = routeOrder rnd ''SOL'' ''USDC'' 1.5 w2
         in checkLimitWithRetry rnd orderId (effectivePrice newRoute) limit (attempt + 1) w3))"
  by pat_completeness auto
termination
  by (relation "measure (\<lambda>(rnd, orderId, currentPrice, limit, attempt, w). maxRetries - attempt)")
     auto

declare checkLimitWithRetry.simps [simp del]

record ProcessResult =
  p_success :: bool
  p_executedPrice :: "real option"
  p_txHash :: "string option"
  p_error :: "message option"

text \<open>The \<open>catch\<close> block of \<open>processLimitOrder\<close>.\<close>

definition catchBlock :: "string \<Rightarrow> exn \<Rightarrow> world \<Rightarrow> ProcessResult \<times> world" where
  "catchBlock orderId e w =
     (let errorMessage = exn_message e;
          w1 = emitStatus orderId failed (FailedData errorMessage) w;
          w2 = updateOrderStatus orderId failed
                 \<lparr>o_dex = None, o_executedPrice = None, o_txHash = None,
                  o_errorReason = Some errorMessage\<rparr> w1
      in (\<lparr>p_success = False, p_executedPrice = None, p_txHash = None,
           p_error = Some errorMessage\<rparr>, w2))"

text \<open>The error thrown when the limit check returns \<open>false\<close>; building its message
  reads \<open>order.limitPrice!.toFixed(2)\<close>.\<close>

definition limitNotReached :: "real \<Rightarrow> real option \<Rightarrow> exn" where
  "limitNotReached best limit =
     (case limit of
        None \<Rightarrow> toFixed_of_null
      | Some l \<Rightarrow> Error [Lit ''Limit price not reached after '', Dec maxRetries,
                          Lit '' attempts. Best price: $'', Fixed2 best,
                          Lit '', Limit: $'', Fixed2 l])"

definition processLimitOrder ::
  "(nat \<Rightarrow> real) \<Rightarrow> Order \<Rightarrow> world \<Rightarrow> ProcessResult \<times> world" where
  "processLimitOrder rnd ord w =
     (let w1 = emitStatus (order_id ord) routing (Message ''Fetching quotes from DEXes...'') w;
          (routeResult, w2) = routeOrder rnd (tokenIn ord) (tokenOut ord) (amountIn ord) w1;
          w3 = emitStatus (order_id ord) limit_check
                 (LimitCheckData (selectedDex routeResult) (effectivePrice routeResult)
                    (limitPrice ord)) w2;
          (limitSatisfied, w4) =
             checkLimitWithRetry rnd (order_id ord) (effectivePrice routeResult)
               (limitPrice ord) 1 w3
      in case limitSatisfied of
           Inl e \<Rightarrow> catchBlock (order_id ord) e w4
         | Inr False \<Rightarrow>
             catchBlock (order_id ord)
               (limitNotReached (effectivePrice routeResult) (limitPrice ord)) w4
         | Inr True \<Rightarrow>
             (let w5 = emitStatus (order_id ord) building (Message ''Building transaction...'') w4;
                  w6 = sleep 500 w5;
                  w7 = emitStatus (order_id ord) submitted (Message ''Submitting to network...'') w6;
                  (swapResult, w8) = executeSwap rnd (selectedDex routeResult) (order_id ord) w7;
                  w9 = emitStatus (order_id ord) confirmed
                         (ConfirmedData (selectedDex routeResult) (s_executedPrice swapResult)
                            (s_txHash swapResult)) w8;
                  w10 = updateOrderStatus (order_id ord) confirmed
                          \<lparr>o_dex = Some (selectedDex routeResult),
                           o_executedPrice = Some (s_executedPrice swapResult),
                           o_txHash = Some (s_txHash swapResult),
                           o_errorReason = None\<rparr> w9
              in (\<lparr>p_success = True,
                   p_executedPrice = Some (s_executedPrice swapResult),
                   p_txHash = Some (s_txHash swapResult),
                   p_error = None\<rparr>, w10)))"

section \<open>Worker and scheduler (src/queue/orderQueue.ts)\<close>









section \<open>Reading a trace\<close>

text \<open>A run started in a world with an empty trace leaves exactly its own effects there.\<close>

definition fresh :: "nat \<Rightarrow> world" where
  "fresh n = \<lparr>rcount = n, trace = []\<rparr>"

definition runEffects :: "(nat \<Rightarrow> real) \<Rightarrow> Order \<Rightarrow> nat \<Rightarrow> effect list" where
  "runEffects rnd ord n = trace (snd (processLimitOrder rnd ord (fresh n)))"

fun status_of :: "effect \<Rightarrow> OrderStatus list" where
  "status_of (Emit orderId st d) = [st]"
| "status_of e = []"

text \<open>The statuses broadcast, in order.\<close>

definition statuses :: "effect list \<Rightarrow> OrderStatus list" where
  "statuses t = concat (map status_of t)"

fun persist_of :: "effect \<Rightarrow> (OrderStatus \<times> OutcomeFields) list" where
  "persist_of (Persist orderId st d) = [(st, d)]"
| "persist_of e = []"

text \<open>The updates written to the record store, in order.\<close>

definition persisted :: "effect list \<Rightarrow> (OrderStatus \<times> OutcomeFields) list" where
  "persisted t = concat (map persist_of t)"

fun route_of :: "effect \<Rightarrow> (string \<times> string \<times> real) list" where
  "route_of (Route tIn tOut amount) = [(tIn, tOut, amount)]"
| "route_of e = []"

text \<open>The arguments of every venue router invocation, in order.\<close>

definition routeCalls :: "effect list \<Rightarrow> (string \<times> string \<times> real) list" where
  "routeCalls t = concat (map route_of t)"

fun console_of :: "effect \<Rightarrow> console_line list" where
  "console_of (Console c) = [c]"
| "console_of e = []"

text \<open>The Price Gate prints one line per limit evaluation of an order with a limit price.\<close>

definition gateEvaluations :: "effect list \<Rightarrow> nat" where
  "gateEvaluations t = length (concat (map console_of t))"

fun sleep_of :: "effect \<Rightarrow> real list" where
  "sleep_of (Sleep ms) = [ms]"
| "sleep_of e = []"

definition sleeps :: "effect list \<Rightarrow> real list" where
  "sleeps t = concat (map sleep_of t)"




section \<open>Event broadcaster (src/websocket/wsManager.ts)\<close>

text \<open>
  A JavaScript \<open>Set\<close> keeps its members in insertion order and holds each once: a list
  to which \<open>add\<close> appends only an absent member. The registry is the
  \<open>Map<string, Set<WebSocket>>\<close>; sockets are handles of any type.
\<close>

definition setAdd :: "'s \<Rightarrow> 's list \<Rightarrow> 's list" where
  "setAdd x xs = (if x \<in> set xs then xs else xs @ [x])"

definition setDelete :: "'s \<Rightarrow> 's list \<Rightarrow> 's list" where
  "setDelete x xs = removeAll x xs"

type_synonym 's connections = "string \<rightharpoonup> 's list"

definition register :: "string \<Rightarrow> 's \<Rightarrow> 's connections \<Rightarrow> 's connections" where
  "register orderId socket conns =
     (let conns1 = (if conns orderId = None then conns(orderId \<mapsto> []) else conns)
      in case conns1 orderId of
           None \<Rightarrow> conns1
         | Some sockets \<Rightarrow> conns1(orderId \<mapsto> setAdd socket sockets))"

definition unregister :: "string \<Rightarrow> 's \<Rightarrow> 's connections \<Rightarrow> 's connections" where
  "unregister orderId socket conns =
     (case conns orderId of
        None \<Rightarrow> conns
      | Some sockets \<Rightarrow>
          (let sockets1 = setDelete socket sockets
           in if length sockets1 = 0 then conns(orderId := None)
              else conns(orderId \<mapsto> sockets1)))"

text \<open>
  \<open>emit\<close> returns the sends it makes, in order: one \<open>socket.send(payload)\<close> for each
  registered socket whose \<open>readyState\<close> is \<open>OPEN\<close>.
\<close>

definition emit :: "string \<Rightarrow> 'm \<Rightarrow> ('s \<Rightarrow> bool) \<Rightarrow> 's connections \<Rightarrow> ('s \<times> 'm) list" where
  "emit orderId msg isOpen conns =
     (case conns orderId of
        None \<Rightarrow> []
      | Some sockets \<Rightarrow> map (\<lambda>socket. (socket, msg)) (filter isOpen sockets))"

definition getConnectionCount :: "string \<Rightarrow> 's connections \<Rightarrow> nat" where
  "getConnectionCount orderId conns =
     (case conns orderId of None \<Rightarrow> 0 | Some sockets \<Rightarrow> length sockets)"

text \<open>The members of an order's set, none when the registry has no entry.\<close>

definition subscribers :: "string \<Rightarrow> 's connections \<Rightarrow> 's list" where
  "subscribers orderId conns = (case conns orderId of None \<Rightarrow> [] | Some sockets \<Rightarrow> sockets)"

datatype 's ws_op = Register string 's | Unregister string 's

fun ws_step :: "'s connections \<Rightarrow> 's ws_op \<Rightarrow> 's connections" where
  "ws_step conns (Register orderId socket) = register orderId socket conns"
| "ws_step conns (Unregister orderId socket) = unregister orderId socket conns"

text \<open>The registry after a sequence of operations on a new manager.\<close>

definition ws_run :: "'s ws_op list \<Rightarrow> 's connections" where
  "ws_run ops = foldl ws_step Map.empty ops"

section \<open>Sample inputs\<close>

text \<open>A random source that always returns 0.5, and one whose values fall between the
  attempts of one run, so that each attempt sees a different quote.\<close>

definition steady :: "nat \<Rightarrow> real" where
  "steady n = 1 / 2"

definition falling :: "nat \<Rightarrow> real" where
  "falling n = (if n < 2 then 3 / 4 else if n < 4 then 1 / 2 else 1 / 4)"

definition sampleOrder :: "real option \<Rightarrow> Order" where
  "sampleOrder limit =
     \<lparr>order_id = ''order-1'', order_type = LIMIT, tokenIn = ''ETH'', tokenOut = ''USDT'',
      amountIn = 2, limitPrice = limit, slippage = 0.02\<rparr>"



section \<open>What a run leaves in the world\<close>















lemmas run_defs = runEffects_def fresh_def processLimitOrder_def sampleOrder_def routeOrder_def
  getRaydiumQuote_def getMeteorQuote_def simulateNetworkDelay_def sleep_def perform_def
  random_def emitStatus_def updateOrderStatus_def selectRoute_def basePrice_def
  checkLimitWithRetry.simps checkLimitCondition_def maxRetries_def retryDelayMs_def Let_def
  catchBlock_def limitNotReached_def statuses_def routeCalls_def gateEvaluations_def
  persisted_def sleeps_def steady_def falling_def













section \<open>Venue selection\<close>

text \<open>
  C6. For every pair of quotes the router's selection takes each venue's effective price
  as \<open>price * (1 - fee)\<close>, returns Raydium when its effective price is strictly lower,
  Meteora when Meteora's is strictly lower, and on equal effective prices always the
  same venue, Meteora; the effective price it returns is the selected venue's
  \<open>price * (1 - fee)\<close>, and price and fee are the selected quote's.
\<close>

theorem routeOrder_selects_lower_effective_price:
  fixes rq mq :: DexQuote
  defines "re \<equiv> q_price rq * (1 - q_fee rq)"
    and "me \<equiv> q_price mq * (1 - q_fee mq)"
  shows "(re < me \<longrightarrow> selectRoute rq mq =
            \<lparr>selectedDex = RAYDIUM, r_price = q_price rq, r_fee = q_fee rq, effectivePrice = re\<rparr>)
       \<and> (me < re \<longrightarrow> selectRoute rq mq =
            \<lparr>selectedDex = METEORA, r_price = q_price mq, r_fee = q_fee mq, effectivePrice = me\<rparr>)
       \<and> (re = me \<longrightarrow> selectRoute rq mq =
            \<lparr>selectedDex = METEORA, r_price = q_price mq, r_fee = q_fee mq, effectivePrice = me\<rparr>)
       \<and> effectivePrice (selectRoute rq mq)
           = r_price (selectRoute rq mq) * (1 - r_fee (selectRoute rq mq))
       \<and> fst (routeOrder rnd tIn tOut amount w)
           = selectRoute (fst (getRaydiumQuote rnd (perform (Route tIn tOut amount) w)))
               (fst (getMeteorQuote rnd (snd (getRaydiumQuote rnd (perform (Route tIn tOut amount) w)))))"
  unfolding re_def me_def
  by (auto simp: selectRoute_def routeOrder_def Let_def split: prod.splits)

theorem routeOrder_selects_lower_effective_price_witness:
  "selectRoute \<lparr>q_price = 100, q_fee = 0.003, q_dex = RAYDIUM\<rparr>
               \<lparr>q_price = 100, q_fee = 0.002, q_dex = METEORA\<rparr>
     = \<lparr>selectedDex = RAYDIUM, r_price = 100, r_fee = 0.003, effectivePrice = 100 * (1 - 0.003)\<rparr>
   \<and> selectRoute \<lparr>q_price = 100, q_fee = 0.002, q_dex = RAYDIUM\<rparr>
                 \<lparr>q_price = 100, q_fee = 0.003, q_dex = METEORA\<rparr>
     = \<lparr>selectedDex = METEORA, r_price = 100, r_fee = 0.003, effectivePrice = 100 * (1 - 0.003)\<rparr>
   \<and> selectRoute \<lparr>q_price = 100, q_fee = 0.002, q_dex = RAYDIUM\<rparr>
                 \<lparr>q_price = 100, q_fee = 0.002, q_dex = METEORA\<rparr>
     = \<lparr>selectedDex = METEORA, r_price = 100, r_fee = 0.002, effectivePrice = 100 * (1 - 0.002)\<rparr>"
  using routeOrder_selects_lower_effective_price
          [of "\<lparr>q_price = 100, q_fee = 0.003, q_dex = RAYDIUM\<rparr>"
              "\<lparr>q_price = 100, q_fee = 0.002, q_dex = METEORA\<rparr>"]
        routeOrder_selects_lower_effective_price
          [of "\<lparr>q_price = 100, q_fee = 0.002, q_dex = RAYDIUM\<rparr>"
              "\<lparr>q_price = 100, q_fee = 0.003, q_dex = METEORA\<rparr>"]
        routeOrder_selects_lower_effective_price
          [of "\<lparr>q_price = 100, q_fee = 0.002, q_dex = RAYDIUM\<rparr>"
              "\<lparr>q_price = 100, q_fee = 0.002, q_dex = METEORA\<rparr>"]
  by simp

section \<open>Order state machine: lifecycle and outcome\<close>




section \<open>Price Gate\<close>

text \<open>
  C7. When the first effective price is at most the limit price, equality included, the
  limit check called as attempt 1 returns \<open>true\<close> at once: it prints its line and does
  nothing else, so it neither waits nor asks the router again nor draws a random number.
\<close>

theorem gate_passes_on_first_quote:
  assumes "currentPrice \<le> l"
  shows "checkLimitWithRetry rnd orderId currentPrice (Some l) 1 w
           = (Inr True, perform (Console (LimitPassed orderId 1 currentPrice l)) w)
       \<and> sleeps (trace (snd (checkLimitWithRetry rnd orderId currentPrice (Some l) 1 w)))
           = sleeps (trace w)
       \<and> routeCalls (trace (snd (checkLimitWithRetry rnd orderId currentPrice (Some l) 1 w)))
           = routeCalls (trace w)
       \<and> rcount (snd (checkLimitWithRetry rnd orderId currentPrice (Some l) 1 w)) = rcount w"
  using assms
  by (subst (1 2 3 4) checkLimitWithRetry.simps)
     (simp add: checkLimitCondition_def perform_def sleeps_def routeCalls_def)

theorem gate_passes_on_first_quote_witness:
  "(100::real) \<le> 100
   \<and> checkLimitWithRetry steady ''order-1'' 100 (Some 100) 1 (fresh 0)
       = (Inr True, perform (Console (LimitPassed ''order-1'' 1 100 100)) (fresh 0))
   \<and> sleeps (trace (snd (checkLimitWithRetry steady ''order-1'' 100 (Some 100) 1 (fresh 0)))) = []
   \<and> routeCalls (trace (snd (checkLimitWithRetry steady ''order-1'' 100 (Some 100) 1 (fresh 0)))) = []"
  using gate_passes_on_first_quote [of 100 100 steady "''order-1''" "fresh 0"]
  by (simp add: fresh_def sleeps_def routeCalls_def)




text \<open>
  C2. An order for 2 ETH against USDT whose limit is out of reach: the first routing
  call carries the order's pair and amount, both retries call the router with
  \<open>'SOL', 'USDC', 1.5\<close>.
\<close>

theorem retry_routes_with_fixed_arguments:
  "routeCalls (runEffects steady (sampleOrder (Some 100)) 0)
     = [(''ETH'', ''USDT'', 2), (''SOL'', ''USDC'', 1.5), (''SOL'', ''USDC'', 1.5)]"
  by (simp add: run_defs)

text \<open>
  C4. With quotes that change between the attempts and a limit out of reach, the gate
  evaluates the limit three times; the last evaluation sees the effective price
  \<open>72755697 / 400000\<close>, and the failure reported by the run carries the price of the
  first routing decision, \<open>74606987 / 400000\<close>.
\<close>

theorem failure_reports_first_price:
  "fst (processLimitOrder falling (sampleOrder (Some 100)) (fresh 0))
     = \<lparr>p_success = False, p_executedPrice = None, p_txHash = None,
        p_error = Some [Lit ''Limit price not reached after '', Dec 3,
                        Lit '' attempts. Best price: $'', Fixed2 (74606987 / 400000),
                        Lit '', Limit: $'', Fixed2 100]\<rparr>
   \<and> concat (map console_of (runEffects falling (sampleOrder (Some 100)) 0))
     = [LimitRetry 1 3 3000, LimitRetry 2 3 3000,
        LimitFailed ''order-1'' 3 (72755697 / 400000) 100]
   \<and> gateEvaluations (runEffects falling (sampleOrder (Some 100)) 0) = 3"
  by (simp add: run_defs)

section \<open>Scheduler\<close>







section \<open>Event broadcaster: the registry\<close>

lemma register_eq:
  "register k s R = R(k \<mapsto> setAdd s (subscribers k R))"
  by (auto simp: register_def subscribers_def Let_def split: option.splits)

lemma setAdd_idem: "setAdd s (setAdd s xs) = setAdd s xs"
  by (simp add: setAdd_def)

lemma setAdd_nonempty: "setAdd s xs \<noteq> []"
  by (auto simp: setAdd_def)

lemma setAdd_distinct: "distinct xs \<Longrightarrow> distinct (setAdd s xs)"
  by (simp add: setAdd_def)

lemma setDelete_distinct: "distinct xs \<Longrightarrow> distinct (setDelete s xs)"
  by (simp add: setDelete_def distinct_removeAll)

lemma register_never_empty: "R k \<noteq> Some [] \<Longrightarrow> register j s R k \<noteq> Some []"
  by (simp add: register_eq setAdd_nonempty)

lemma unregister_never_empty: "R k \<noteq> Some [] \<Longrightarrow> unregister j s R k \<noteq> Some []"
  by (auto simp: unregister_def Let_def split: option.splits)

lemma ws_run_snoc: "ws_run (ops @ [x]) = ws_step (ws_run ops) x"
  by (simp add: ws_run_def)

lemma ws_run_never_empty: "ws_run ops k \<noteq> Some []"
proof (induction ops rule: rev_induct)
  case Nil
  show ?case by (simp add: ws_run_def)
next
  case (snoc x xs)
  then show ?case
    by (cases x) (simp_all add: ws_run_snoc register_never_empty unregister_never_empty)
qed

lemma register_distinct: "distinct (subscribers k R) \<Longrightarrow> distinct (subscribers k (register j s R))"
  by (auto simp: register_eq subscribers_def setAdd_distinct split: option.splits)

lemma unregister_distinct: "distinct (subscribers k R) \<Longrightarrow> distinct (subscribers k (unregister j s R))"
  by (auto simp: unregister_def subscribers_def Let_def setDelete_distinct split: option.splits)

lemma ws_run_distinct: "distinct (subscribers k (ws_run ops))"
proof (induction ops rule: rev_induct)
  case Nil
  show ?case by (simp add: ws_run_def subscribers_def)
next
  case (snoc x xs)
  then show ?case
    by (cases x) (simp_all add: ws_run_snoc register_distinct unregister_distinct)
qed

text \<open>
  C9. After every sequence of register and unregister operations on a new manager, no
  order id is mapped to an empty set of sockets; and when the set of an order holds one
  socket, unregistering that socket removes the order's entry, after which
  \<open>getConnectionCount\<close> of the order is 0.
\<close>

theorem unregister_last_removes_entry:
  "ws_run ops orderId \<noteq> Some []
   \<and> (ws_run ops orderId = Some [socket] \<longrightarrow>
        unregister orderId socket (ws_run ops) orderId = None
        \<and> getConnectionCount orderId (unregister orderId socket (ws_run ops)) = 0)"
  by (auto simp: ws_run_never_empty unregister_def getConnectionCount_def setDelete_def)

theorem unregister_last_removes_entry_witness:
  "ws_run [Register ''o1'' (1::nat)] ''o1'' = Some [1]
   \<and> unregister ''o1'' 1 (ws_run [Register ''o1'' (1::nat)]) ''o1'' = None
   \<and> getConnectionCount ''o1'' (unregister ''o1'' 1 (ws_run [Register ''o1'' (1::nat)])) = 0"
proof -
  have h: "ws_run [Register ''o1'' (1::nat)] ''o1'' = Some [1]"
    by (simp add: ws_run_def register_def setAdd_def)
  show ?thesis
    using h unregister_last_removes_entry [of "[Register ''o1'' (1::nat)]" "''o1''" 1] by simp
qed

lemma emit_sends: "emit k m isOpen R = map (\<lambda>socket. (socket, m)) (filter isOpen (subscribers k R))"
  by (simp add: emit_def subscribers_def split: option.splits)

lemma sends_to: "filter (\<lambda>(t, m). t = s) (map (\<lambda>socket. (socket, m)) xs) = map (\<lambda>socket. (socket, m)) (filter (\<lambda>t. t = s) xs)"
  by (induction xs) auto

lemma distinct_filter_eq_le1: "distinct xs \<Longrightarrow> length (filter (\<lambda>t. P t \<and> t = s) xs) \<le> Suc 0"
  by (induction xs) (auto simp: filter_empty_conv)

text \<open>
  C10. In every reachable registry, registering a socket for an order a second time
  changes nothing: the registry and \<open>getConnectionCount\<close> stay as after the first
  register, an \<open>emit\<close> for the order sends to that socket at most once, and one
  \<open>unregister\<close> then removes the socket: it is no longer a member, a later \<open>emit\<close>
  sends it nothing, and the count has dropped by one.
\<close>

theorem register_twice_idempotent:
  fixes ops :: "'s ws_op list" and orderId :: string and socket :: 's
  defines "once \<equiv> register orderId socket (ws_run ops)"
  defines "twice \<equiv> register orderId socket once"
  shows "twice = once
       \<and> getConnectionCount orderId twice = getConnectionCount orderId once
       \<and> length (filter (\<lambda>(t, m). t = socket) (emit orderId msg isOpen twice)) \<le> 1
       \<and> socket \<notin> set (subscribers orderId (unregister orderId socket twice))
       \<and> filter (\<lambda>(t, m). t = socket) (emit orderId msg isOpen (unregister orderId socket twice)) = []
       \<and> Suc (getConnectionCount orderId (unregister orderId socket twice))
           = getConnectionCount orderId twice"
proof -
  have t: "twice = once"
    unfolding twice_def once_def
    by (simp add: register_eq subscribers_def setAdd_idem)
  have d: "distinct (subscribers orderId once)"
    unfolding once_def using ws_run_distinct [of orderId "ops @ [Register orderId socket]"]
    by (simp add: ws_run_snoc)
  have m: "socket \<in> set (subscribers orderId once)"
    unfolding once_def by (simp add: register_eq subscribers_def setAdd_def)
  have u: "subscribers orderId (unregister orderId socket once) = removeAll socket (subscribers orderId once)"
    by (auto simp: unregister_def subscribers_def setDelete_def Let_def split: option.splits)
  have c: "\<And>R. getConnectionCount orderId R = length (subscribers orderId R)"
    by (simp add: getConnectionCount_def subscribers_def split: option.splits)
  have "length (filter (\<lambda>(t, m). t = socket) (emit orderId msg isOpen once)) \<le> 1"
    using d by (simp add: emit_sends sends_to distinct_filter_eq_le1)
  moreover have "socket \<notin> set (subscribers orderId (unregister orderId socket once))"
    by (simp add: u)
  moreover have "filter (\<lambda>(t, m). t = socket) (emit orderId msg isOpen (unregister orderId socket once)) = []"
    by (simp add: emit_sends sends_to u filter_empty_conv)
  moreover have "Suc (getConnectionCount orderId (unregister orderId socket once))
           = getConnectionCount orderId once"
    using d m by (simp add: c u distinct_remove1_removeAll [symmetric] length_remove1)
      (cases "subscribers orderId once", auto)
  ultimately show ?thesis using t by simp
qed

end
